theory Spec2Isabelle
  imports Main "HOL-Library.List_Lexorder"
begin

section \<open>Text, bytes and the string operations the script uses\<close>

text \<open>
  A Python \<open>str\<close> is a sequence of Unicode code points: it is modelled as a list of
  natural numbers. The bytes of a file are HOL characters, which are 8 bits wide.
  String literals of the script are written with \<open>str\<close>, which maps every ASCII
  character of a HOL literal to its code point.

  The whitespace class (\<open>\s\<close> of \<open>re\<close> on \<open>str\<close> patterns, \<open>str.strip\<close>) is CPython's
  \<open>Py_UNICODE_ISSPACE\<close>, given in full. The case conversions \<open>str.lower\<close> and
  \<open>str.title\<close> are given on the ASCII letters only: a code point above 127 is left as it
  is, which is CPython's behaviour for uncased code points but not for cased ones.
  Statements that depend on a case conversion therefore assume ASCII input.
  Paths follow \<open>posixpath\<close>. Console output and the delay after each file are not
  modelled.
\<close>

type_synonym pystr = "nat list"
type_synonym bytes = "char list"

definition str :: "string \<Rightarrow> pystr" where
  "str s = map of_char s"

abbreviation NL :: nat where "NL \<equiv> 10"
abbreviation CR :: nat where "CR \<equiv> 13"
abbreviation SPACE :: nat where "SPACE \<equiv> 32"
abbreviation HASH :: nat where "HASH \<equiv> 35"
abbreviation HYPHEN :: nat where "HYPHEN \<equiv> 45"
abbreviation DOT :: nat where "DOT \<equiv> 46"
abbreviation SLASH :: nat where "SLASH \<equiv> 47"
abbreviation COLON :: nat where "COLON \<equiv> 58"
abbreviation UNDERSCORE :: nat where "UNDERSCORE \<equiv> 95"

definition ascii :: "pystr \<Rightarrow> bool" where
  "ascii s = list_all (\<lambda>c. c < 128) s"

definition is_space :: "nat \<Rightarrow> bool" where
  "is_space c \<longleftrightarrow>
     (9 \<le> c \<and> c \<le> 13) \<or> (28 \<le> c \<and> c \<le> 32) \<or> c = 0x85 \<or> c = 0xA0 \<or> c = 0x1680 \<or>
     (0x2000 \<le> c \<and> c \<le> 0x200A) \<or> c = 0x2028 \<or> c = 0x2029 \<or> c = 0x202F \<or>
     c = 0x205F \<or> c = 0x3000"

definition lstrip :: "pystr \<Rightarrow> pystr" where
  "lstrip s = dropWhile is_space s"

definition rstrip :: "pystr \<Rightarrow> pystr" where
  "rstrip s = rev (dropWhile is_space (rev s))"

definition strip :: "pystr \<Rightarrow> pystr" where
  "strip s = rstrip (lstrip s)"

definition startswith :: "pystr \<Rightarrow> pystr \<Rightarrow> bool" where
  "startswith s p \<longleftrightarrow> take (length p) s = p"

definition endswith :: "pystr \<Rightarrow> pystr \<Rightarrow> bool" where
  "endswith s p \<longleftrightarrow> length p \<le> length s \<and> drop (length s - length p) s = p"

text \<open>\<open>s.replace(old, new)\<close> for a one-character \<open>old\<close>, the only form the script uses.\<close>

definition replace1 :: "nat \<Rightarrow> pystr \<Rightarrow> pystr \<Rightarrow> pystr" where
  "replace1 old new s = concat (map (\<lambda>c. if c = old then new else [c]) s)"

definition lower_cp :: "nat \<Rightarrow> nat" where
  "lower_cp c = (if 65 \<le> c \<and> c \<le> 90 then c + 32 else c)"

definition title_cp :: "nat \<Rightarrow> nat" where
  "title_cp c = (if 97 \<le> c \<and> c \<le> 122 then c - 32 else c)"

definition is_cased :: "nat \<Rightarrow> bool" where
  "is_cased c \<longleftrightarrow> (65 \<le> c \<and> c \<le> 90) \<or> (97 \<le> c \<and> c \<le> 122)"

definition py_lower :: "pystr \<Rightarrow> pystr" where
  "py_lower s = map lower_cp s"

text \<open>
  \<open>str.title\<close>: CPython walks the string with the flag \<open>previous_is_cased\<close>; a character
  after a cased one is lowercased, any other is titlecased.
\<close>

fun do_title :: "bool \<Rightarrow> pystr \<Rightarrow> pystr" where
  "do_title previous_is_cased [] = []"
| "do_title previous_is_cased (c # cs) =
     (if previous_is_cased then lower_cp c else title_cp c) # do_title (is_cased c) cs"

definition py_title :: "pystr \<Rightarrow> pystr" where
  "py_title s = do_title False s"

text \<open>\<open>str(n)\<close> for a non-negative integer.\<close>

fun show_nat :: "nat \<Rightarrow> pystr" where
  "show_nat n = (if n < 10 then [48 + n] else show_nat (n div 10) @ [48 + n mod 10])"

declare show_nat.simps [simp del]

text \<open>\<open>sep.join(xs)\<close>.\<close>

fun join :: "pystr \<Rightarrow> pystr list \<Rightarrow> pystr" where
  "join sep [] = []"
| "join sep [x] = x"
| "join sep (x # y # ys) = x @ sep @ join sep (y # ys)"

subsection \<open>Paths (\<open>posixpath\<close>)\<close>

text \<open>\<open>s.rfind(c)\<close> for a one-character \<open>c\<close>: the last index of \<open>c\<close>, or \<open>-1\<close>.\<close>

definition rfind :: "nat \<Rightarrow> pystr \<Rightarrow> int" where
  "rfind c s =
     (if c \<in> set s then int (length s) - 1 - int (length (takeWhile (\<lambda>x. x \<noteq> c) (rev s)))
      else - 1)"

definition basename :: "pystr \<Rightarrow> pystr" where
  "basename p = drop (nat (rfind SLASH p + 1)) p"

text \<open>
  \<open>os.path.splitext\<close>: the extension starts at the last dot after the last separator,
  unless only dots stand between the separator and that dot.
\<close>

definition splitext :: "pystr \<Rightarrow> pystr \<times> pystr" where
  "splitext p =
     (let sepIndex = rfind SLASH p; dotIndex = rfind DOT p in
      if dotIndex > sepIndex \<and>
         list_ex (\<lambda>c. c \<noteq> DOT) (take (nat (dotIndex - (sepIndex + 1))) (drop (nat (sepIndex + 1)) p))
      then (take (nat dotIndex) p, drop (nat dotIndex) p)
      else (p, []))"

text \<open>\<open>os.path.join(a, b)\<close>.\<close>

definition path_join :: "pystr \<Rightarrow> pystr \<Rightarrow> pystr" where
  "path_join a b =
     (if startswith b [SLASH] then b
      else if a = [] \<or> endswith a [SLASH] then a @ b
      else a @ [SLASH] @ b)"

section \<open>Title extraction\<close>

text \<open>
  \<open>re.search(r'^#\s+(.+)$', content, re.MULTILINE)\<close>. Under \<open>MULTILINE\<close>, \<open>^\<close> matches
  at the start of the text and after every newline, \<open>$\<close> at the end of the text and
  before every newline; \<open>.\<close> matches every character but the newline, \<open>\s\<close> every
  whitespace character, the newline included.

  \<open>(.+)$\<close>: the group is greedy and cannot cross a newline, and \<open>$\<close> holds only where
  the line ends, so the only match takes the whole rest of the line, which must not be
  empty.
\<close>

definition group_to_eol :: "pystr \<Rightarrow> pystr option" where
  "group_to_eol s = (let g = takeWhile (\<lambda>c. c \<noteq> NL) s in if g = [] then None else Some g)"

text \<open>
  \<open>\s*(.+)$\<close> after the first whitespace character of \<open>\s+\<close>: greedy, so one more
  whitespace character is tried first, and the matcher backtracks to the group when
  that fails.
\<close>

fun spaces_then_group :: "pystr \<Rightarrow> pystr option" where
  "spaces_then_group [] = group_to_eol []"
| "spaces_then_group (c # cs) =
     (if is_space c then
        (case spaces_then_group cs of Some g \<Rightarrow> Some g | None \<Rightarrow> group_to_eol (c # cs))
      else group_to_eol (c # cs))"

text \<open>The pattern tried at one position where \<open>^\<close> holds.\<close>

fun match_title_at :: "pystr \<Rightarrow> pystr option" where
  "match_title_at (h # w # cs) =
     (if h = HASH \<and> is_space w then spaces_then_group cs else None)"
| "match_title_at _ = None"

text \<open>
  The search tries every position from left to right; the flag says whether \<open>^\<close> holds
  at the current one.
\<close>

fun search_title :: "bool \<Rightarrow> pystr \<Rightarrow> pystr option" where
  "search_title bol [] = None"
| "search_title bol (c # cs) =
     (case (if bol then match_title_at (c # cs) else None) of
        Some g \<Rightarrow> Some g
      | None \<Rightarrow> search_title (c = NL) cs)"

definition filename_title :: "pystr \<Rightarrow> pystr" where
  "filename_title file_path =
     py_title (replace1 UNDERSCORE [SPACE] (replace1 HYPHEN [SPACE]
       (fst (splitext (basename file_path)))))"

definition get_file_title :: "pystr \<Rightarrow> pystr \<Rightarrow> pystr" where
  "get_file_title file_path content =
     (case search_title True content of
        Some g \<Rightarrow> strip g
      | None \<Rightarrow> filename_title file_path)"

section \<open>Files and decoding\<close>

text \<open>
  The file system maps a path to what is there: a regular file with its bytes, or a
  directory with the names \<open>os.listdir\<close> returns (in the order it returns them).
  A path that is absent does not exist. Permissions are not modelled: a regular file
  can always be opened for reading.
\<close>

datatype node = Regular bytes | Directory "pystr list"

type_synonym filesystem = "pystr \<Rightarrow> node option"

text \<open>
  The exceptions that can leave a function of the script, each with the text \<open>str(e)\<close>
  gives. \<open>UnicodeDecodeError\<close> never leaves \<open>read_file_content\<close>; it is an outcome of
  opening and reading a file, below.
\<close>

datatype exn =
    FileNotFoundError pystr
  | OSError pystr
  | TypeError pystr
  | UnboundLocalError pystr
  | Exception pystr

fun exn_str :: "exn \<Rightarrow> pystr" where
  "exn_str (FileNotFoundError m) = m"
| "exn_str (OSError m) = m"
| "exn_str (TypeError m) = m"
| "exn_str (UnboundLocalError m) = m"
| "exn_str (Exception m) = m"

text \<open>\<open>repr\<close> of a path without quotes, backslashes or unprintable characters.\<close>

definition quoted :: "pystr \<Rightarrow> pystr" where
  "quoted p = str [CHR 0x27] @ p @ str [CHR 0x27]"

datatype encoding = UTF8 | Latin1 | Windows1252 | ASCII

definition cont :: "nat \<Rightarrow> bool" where
  "cont b \<longleftrightarrow> 0x80 \<le> b \<and> b \<le> 0xBF"

text \<open>The strict UTF-8 decoder: well-formed sequences only, no surrogates, at most U+10FFFF.\<close>

fun utf8_decode :: "nat list \<Rightarrow> pystr option" where
  "utf8_decode [] = Some []"
| "utf8_decode (b # bs) =
     (if b < 0x80 then map_option ((#) b) (utf8_decode bs)
      else if 0xC2 \<le> b \<and> b \<le> 0xDF then
        (case bs of
           b1 # r \<Rightarrow>
             if cont b1
             then map_option ((#) ((b - 0xC0) * 64 + (b1 - 0x80))) (utf8_decode r)
             else None
         | _ \<Rightarrow> None)
      else if 0xE0 \<le> b \<and> b \<le> 0xEF then
        (case bs of
           b1 # b2 # r \<Rightarrow>
             if (if b = 0xE0 then 0xA0 \<le> b1 \<and> b1 \<le> 0xBF
                 else if b = 0xED then 0x80 \<le> b1 \<and> b1 \<le> 0x9F
                 else cont b1) \<and> cont b2
             then map_option
                    ((#) ((b - 0xE0) * 4096 + (b1 - 0x80) * 64 + (b2 - 0x80))) (utf8_decode r)
             else None
         | _ \<Rightarrow> None)
      else if 0xF0 \<le> b \<and> b \<le> 0xF4 then
        (case bs of
           b1 # b2 # b3 # r \<Rightarrow>
             if (if b = 0xF0 then 0x90 \<le> b1 \<and> b1 \<le> 0xBF
                 else if b = 0xF4 then 0x80 \<le> b1 \<and> b1 \<le> 0x8F
                 else cont b1) \<and> cont b2 \<and> cont b3
             then map_option
                    ((#) ((b - 0xF0) * 262144 + (b1 - 0x80) * 4096 + (b2 - 0x80) * 64 + (b3 - 0x80)))
                    (utf8_decode r)
             else None
         | _ \<Rightarrow> None)
      else None)"

text \<open>Windows-1252 as CPython's \<open>cp1252\<close> codec has it: five bytes are undefined.\<close>

definition cp1252_high :: "(nat \<times> nat) list" where
  "cp1252_high =
     [(0x80, 0x20AC), (0x82, 0x201A), (0x83, 0x0192), (0x84, 0x201E), (0x85, 0x2026),
      (0x86, 0x2020), (0x87, 0x2021), (0x88, 0x02C6), (0x89, 0x2030), (0x8A, 0x0160),
      (0x8B, 0x2039), (0x8C, 0x0152), (0x8E, 0x017D), (0x91, 0x2018), (0x92, 0x2019),
      (0x93, 0x201C), (0x94, 0x201D), (0x95, 0x2022), (0x96, 0x2013), (0x97, 0x2014),
      (0x98, 0x02DC), (0x99, 0x2122), (0x9A, 0x0161), (0x9B, 0x203A), (0x9C, 0x0153),
      (0x9E, 0x017E), (0x9F, 0x0178)]"

definition cp1252_cp :: "nat \<Rightarrow> nat option" where
  "cp1252_cp b = (if b < 0x80 \<or> 0xA0 \<le> b then Some b else map_of cp1252_high b)"

fun decode :: "encoding \<Rightarrow> bytes \<Rightarrow> pystr option" where
  "decode UTF8 bs = utf8_decode (map of_char bs)"
| "decode Latin1 bs = Some (map of_char bs)"
| "decode Windows1252 bs = those (map (\<lambda>b. cp1252_cp (of_char b)) bs)"
| "decode ASCII bs =
     (if list_all (\<lambda>b. (of_char b :: nat) < 0x80) bs then Some (map of_char bs) else None)"

text \<open>
  Text mode with the default \<open>newline=None\<close>: \<open>\r\n\<close> and a lone \<open>\r\<close> are read as
  \<open>\n\<close>.
\<close>

fun universal_newlines :: "pystr \<Rightarrow> pystr" where
  "universal_newlines [] = []"
| "universal_newlines [c] = [if c = CR then NL else c]"
| "universal_newlines (c # d # cs) =
     (if c = CR then
        (if d = NL then NL # universal_newlines cs else NL # universal_newlines (d # cs))
      else c # universal_newlines (d # cs))"

text \<open>\<open>open(file_path, 'r', encoding=enc)\<close> followed by \<open>file.read()\<close>.\<close>

datatype opened = Content pystr | Undecodable | Failed exn

definition open_read :: "filesystem \<Rightarrow> pystr \<Rightarrow> encoding \<Rightarrow> opened" where
  "open_read fs file_path enc =
     (case fs file_path of
        None \<Rightarrow>
          Failed (FileNotFoundError
            (str ''[Errno 2] No such file or directory: '' @ quoted file_path))
      | Some (Directory names) \<Rightarrow>
          Failed (OSError (str ''[Errno 21] Is a directory: '' @ quoted file_path))
      | Some (Regular bs) \<Rightarrow>
          (case decode enc bs of
             None \<Rightarrow> Undecodable
           | Some s \<Rightarrow> Content (universal_newlines s)))"

text \<open>
  The loop over the fallback encodings. It runs inside the handler of the first
  \<open>try\<close>, so an exception other than a decoding failure leaves unwrapped. After the
  loop the script calls \<open>UnicodeDecodeError\<close> with one argument; the constructor takes
  five, so the call itself raises \<open>TypeError\<close>.
\<close>

fun try_encodings :: "filesystem \<Rightarrow> pystr \<Rightarrow> encoding list \<Rightarrow> exn + pystr" where
  "try_encodings fs file_path [] =
     Inl (TypeError (str ''function takes exactly 5 arguments (1 given)''))"
| "try_encodings fs file_path (encoding # encodings) =
     (case open_read fs file_path encoding of
        Content s \<Rightarrow> Inr s
      | Undecodable \<Rightarrow> try_encodings fs file_path encodings
      | Failed e \<Rightarrow> Inl e)"

definition read_file_content :: "filesystem \<Rightarrow> pystr \<Rightarrow> exn + pystr" where
  "read_file_content fs file_path =
     (if fs file_path = None then
        Inl (FileNotFoundError (str ''File not found: '' @ file_path))
      else
        (case open_read fs file_path UTF8 of
           Content s \<Rightarrow> Inr s
         | Undecodable \<Rightarrow> try_encodings fs file_path [Latin1, Windows1252, ASCII]
         | Failed e \<Rightarrow>
             Inl (Exception (str ''Error reading file '' @ file_path @ str '': '' @ exn_str e))))"

section \<open>Discovery\<close>

definition listdir :: "filesystem \<Rightarrow> pystr \<Rightarrow> exn + pystr list" where
  "listdir fs directory =
     (case fs directory of
        None \<Rightarrow>
          Inl (FileNotFoundError
            (str ''[Errno 2] No such file or directory: '' @ quoted directory))
      | Some (Regular bs) \<Rightarrow>
          Inl (OSError (str ''[Errno 20] Not a directory: '' @ quoted directory))
      | Some (Directory names) \<Rightarrow> Inr names)"

definition is_markdown_name :: "pystr \<Rightarrow> bool" where
  "is_markdown_name file \<longleftrightarrow> endswith (py_lower file) (str ''.md'')"

definition find_markdown_files :: "filesystem \<Rightarrow> pystr \<Rightarrow> exn + pystr list" where
  "find_markdown_files fs directory =
     (if fs directory = None then
        Inl (FileNotFoundError (str ''Directory not found: '' @ directory))
      else
        (case listdir fs directory of
           Inl e \<Rightarrow> Inl (Exception (str ''Error finding Markdown files: '' @ exn_str e))
         | Inr names \<Rightarrow>
             Inr (sort (map (path_join directory) (filter is_markdown_name names)))))"

section \<open>The combiner\<close>

text \<open>The anchor of a table-of-contents entry.\<close>

definition slug :: "pystr \<Rightarrow> pystr" where
  "slug title = replace1 COLON [] (replace1 DOT [] (replace1 SPACE [HYPHEN] (py_lower title)))"

definition toc_entry :: "filesystem \<Rightarrow> nat \<Rightarrow> pystr \<Rightarrow> pystr" where
  "toc_entry fs i file_path =
     (case read_file_content fs file_path of
        Inr content \<Rightarrow>
          (let title = get_file_title file_path content in
           show_nat (i + 1) @ str ''. ['' @ title @ str ''](#'' @ slug title @ str '')'')
      | Inl e \<Rightarrow>
          show_nat (i + 1) @ str ''. [Error: '' @ basename file_path @ str ''](#error-'' @
          show_nat (i + 1) @ str '')'')"

text \<open>
  \<open>re.sub(r'^#\s+.+\n', '', s, count=1)\<close>: without \<open>MULTILINE\<close>, \<open>^\<close> holds at the start
  of the text only, so the one match that can be replaced starts there. The functions
  return what follows the match.

  \<open>.+\n\<close>: the greedy \<open>.+\<close> stops before the first newline, which must be there, after
  at least one character.
\<close>

definition line_then_newline :: "pystr \<Rightarrow> pystr option" where
  "line_then_newline s =
     (let g = takeWhile (\<lambda>c. c \<noteq> NL) s; r = dropWhile (\<lambda>c. c \<noteq> NL) s in
      if g \<noteq> [] \<and> r \<noteq> [] then Some (tl r) else None)"

fun spaces_then_line :: "pystr \<Rightarrow> pystr option" where
  "spaces_then_line [] = line_then_newline []"
| "spaces_then_line (c # cs) =
     (if is_space c then
        (case spaces_then_line cs of Some r \<Rightarrow> Some r | None \<Rightarrow> line_then_newline (c # cs))
      else line_then_newline (c # cs))"

fun match_heading_line :: "pystr \<Rightarrow> pystr option" where
  "match_heading_line (h # w # cs) =
     (if h = HASH \<and> is_space w then spaces_then_line cs else None)"
| "match_heading_line _ = None"

definition sub_first_heading :: "pystr \<Rightarrow> pystr" where
  "sub_first_heading s = (case match_heading_line s of Some r \<Rightarrow> r | None \<Rightarrow> s)"

definition skip_first_heading :: "pystr \<Rightarrow> pystr" where
  "skip_first_heading content =
     (if startswith (lstrip content) (str ''# '') then sub_first_heading (lstrip content)
      else content)"

text \<open>
  One pass of the second loop. The state is the list \<open>combined_content\<close> and the local
  variable \<open>filename\<close>, which is unbound (\<open>None\<close>) until the first file has been read:
  it is assigned inside the \<open>try\<close>, after \<open>read_file_content\<close>, and read by the handler.
  The end marker of a section is a plain string literal, not an f-string.
\<close>

definition section_fragments :: "pystr \<Rightarrow> pystr \<Rightarrow> pystr \<Rightarrow> pystr list" where
  "section_fragments filename title content =
     [str ''<!-- BEGIN: '' @ filename @ str '' -->\<newline>\<newline>'',
      str ''# '' @ title @ str ''\<newline>\<newline>'',
      str ''*Source: `'' @ filename @ str ''`*\<newline>\<newline>'',
      strip (skip_first_heading content),
      str ''\<newline>\<newline>'',
      str ''<!-- END: {filename} -->\<newline>\<newline>'',
      str ''---\<newline>\<newline>'']"

definition error_fragments :: "pystr \<Rightarrow> exn \<Rightarrow> pystr list" where
  "error_fragments filename e =
     [str ''<!-- BEGIN: ERROR - '' @ filename @ str '' -->\<newline>\<newline>'',
      str ''# Error: Could not process '' @ filename @ str ''\<newline>\<newline>'',
      str ''Error details: '' @ exn_str e @ str ''\<newline>\<newline>'',
      str ''<!-- END: ERROR - '' @ filename @ str '' -->\<newline>\<newline>'',
      str ''---\<newline>\<newline>'']"

definition unbound_filename :: exn where
  "unbound_filename =
     UnboundLocalError
       (str ''cannot access local variable 'filename' where it is not associated with a value'')"

definition process_file ::
  "filesystem \<Rightarrow> pystr list \<times> pystr option \<Rightarrow> pystr \<Rightarrow> exn + pystr list \<times> pystr option" where
  "process_file fs st file_path =
     (case st of (combined_content, filename) \<Rightarrow>
        (case read_file_content fs file_path of
           Inr content \<Rightarrow>
             (let title = get_file_title file_path content;
                  filename' = basename file_path
              in Inr (combined_content @ section_fragments filename' title content,
                      Some filename'))
         | Inl e \<Rightarrow>
             (case filename of
                None \<Rightarrow> Inl unbound_filename
              | Some name \<Rightarrow> Inr (combined_content @ error_fragments name e, filename))))"

fun process_files ::
  "filesystem \<Rightarrow> pystr list \<times> pystr option \<Rightarrow> pystr list \<Rightarrow> exn + pystr list \<times> pystr option" where
  "process_files fs st [] = Inr st"
| "process_files fs st (file_path # files) =
     (case process_file fs st file_path of
        Inl e \<Rightarrow> Inl e
      | Inr st' \<Rightarrow> process_files fs st' files)"

definition header_fragments :: "pystr \<Rightarrow> filesystem \<Rightarrow> pystr list \<Rightarrow> pystr list" where
  "header_fragments timestamp fs files =
     [str ''# Logbie Framework - Combined Documentation\<newline>\<newline>'',
      str ''*Generated on: '' @ timestamp @ str ''*\<newline>\<newline>'',
      str ''## Table of Contents\<newline>\<newline>'',
      join [NL] (map (\<lambda>(i, file_path). toc_entry fs i file_path) (enumerate 0 files)) @
        str ''\<newline>\<newline>'',
      str ''---\<newline>\<newline>'']"

text \<open>The argument \<open>timestamp\<close> is what the clock gives when the function starts.\<close>

definition combine_markdown_files :: "pystr \<Rightarrow> filesystem \<Rightarrow> pystr list \<Rightarrow> exn + pystr" where
  "combine_markdown_files timestamp fs files =
     (case process_files fs (header_fragments timestamp fs files, None) files of
        Inl e \<Rightarrow> Inl e
      | Inr (combined_content, filename) \<Rightarrow> Inr (concat combined_content))"

section \<open>Writing and the main function\<close>

text \<open>
  The state of a run: the file system, and the paths on which the operating system
  refuses to create or write (permissions, a full disk). Writing a file and making a
  directory change the entry of the path itself; the listing of the parent directory
  is left as it is, since nothing reads it afterwards. The message of an error that
  the operating system or a codec raises is given in outline.
\<close>

record world =
  fs :: filesystem
  denied :: "pystr \<Rightarrow> bool"

text \<open>The UTF-8 encoder: a surrogate cannot be encoded.\<close>

definition utf8_encode_cp :: "nat \<Rightarrow> nat list option" where
  "utf8_encode_cp c =
     (if c < 0x80 then Some [c]
      else if c < 0x800 then Some [0xC0 + c div 64, 0x80 + c mod 64]
      else if 0xD800 \<le> c \<and> c \<le> 0xDFFF then None
      else if c < 0x10000 then
        Some [0xE0 + c div 4096, 0x80 + (c div 64) mod 64, 0x80 + c mod 64]
      else if c < 0x110000 then
        Some [0xF0 + c div 262144, 0x80 + (c div 4096) mod 64, 0x80 + (c div 64) mod 64,
              0x80 + c mod 64]
      else None)"

definition utf8_encode :: "pystr \<Rightarrow> bytes option" where
  "utf8_encode s = map_option (\<lambda>bss. map char_of (concat bss)) (those (map utf8_encode_cp s))"

definition write_output_file :: "world \<Rightarrow> pystr \<Rightarrow> pystr \<Rightarrow> exn + world" where
  "write_output_file w content output_path =
     (if denied w output_path then
        Inl (Exception (str ''Error writing output file: [Errno 13] Permission denied: '' @
               quoted output_path))
      else
        (case fs w output_path of
           Some (Directory names) \<Rightarrow>
             Inl (Exception (str ''Error writing output file: [Errno 21] Is a directory: '' @
                    quoted output_path))
         | _ \<Rightarrow>
             (case utf8_encode content of
                None \<Rightarrow> Inl (Exception (str ''Error writing output file: surrogates not allowed''))
              | Some bs \<Rightarrow> Inr (w\<lparr>fs := (fs w)(output_path \<mapsto> Regular bs)\<rparr>))))"

definition makedirs :: "world \<Rightarrow> pystr \<Rightarrow> exn + world" where
  "makedirs w path =
     (if denied w path then
        Inl (OSError (str ''[Errno 13] Permission denied: '' @ quoted path))
      else Inr (w\<lparr>fs := (fs w)(path \<mapsto> Directory [])\<rparr>))"

text \<open>
  The constants \<open>DOCS_DIR\<close> and \<open>OUTPUT_DIR\<close> follow from where the script is installed,
  and the two readings of the clock from when it runs: they are the configuration of a
  run.
\<close>

record config =
  DOCS_DIR :: pystr
  OUTPUT_DIR :: pystr
  timestamp_now :: pystr
  date_str :: pystr

text \<open>
  \<open>main\<close> returns \<open>None\<close> when it leaves by the bare \<open>return\<close>, and the world as the run
  left it.
\<close>

definition main :: "config \<Rightarrow> world \<Rightarrow> int option \<times> world" where
  "main cfg w =
     (case (if fs w (OUTPUT_DIR cfg) = None then makedirs w (OUTPUT_DIR cfg) else Inr w) of
        Inl e \<Rightarrow> (Some 1, w)
      | Inr w1 \<Rightarrow>
          (case find_markdown_files (fs w1) (DOCS_DIR cfg) of
             Inl e \<Rightarrow> (Some 1, w1)
           | Inr markdown_files \<Rightarrow>
               if markdown_files = [] then (None, w1)
               else
                 (case combine_markdown_files (timestamp_now cfg) (fs w1) markdown_files of
                    Inl e \<Rightarrow> (Some 1, w1)
                  | Inr combined_content \<Rightarrow>
                      (let output_filename = str ''logbie_docs_'' @ date_str cfg @ str ''.md'';
                           output_path = path_join (OUTPUT_DIR cfg) output_filename
                       in case write_output_file w1 combined_content output_path of
                            Inl e \<Rightarrow> (Some 1, w1)
                          | Inr w2 \<Rightarrow> (Some 0, w2)))))"

text \<open>\<open>sys.exit(main())\<close>: \<open>None\<close> is exit status 0, an integer is itself.\<close>

definition sys_exit :: "int option \<Rightarrow> int" where
  "sys_exit r = (case r of None \<Rightarrow> 0 | Some n \<Rightarrow> n)"

section \<open>Notions used in the statements\<close>

text \<open>
  No line of the text begins with \<open>#\<close> followed by a whitespace character. The first
  argument says whether the text starts at the start of a line. The line break that
  ends a line consisting of \<open>#\<close> alone counts as whitespace after it, as it does for
  \<open>\s\<close>.
\<close>

fun no_hash_space :: "bool \<Rightarrow> pystr \<Rightarrow> bool" where
  "no_hash_space bol [] = True"
| "no_hash_space bol [c] = True"
| "no_hash_space bol (c # d # cs) =
     ((if bol \<and> c = HASH then \<not> is_space d else True) \<and> no_hash_space (c = NL) (d # cs))"



text \<open>The result of the first encoding of a list that decodes the bytes.\<close>

fun first_decodable :: "encoding list \<Rightarrow> bytes \<Rightarrow> pystr option" where
  "first_decodable [] bs = None"
| "first_decodable (e # es) bs =
     (case decode e bs of Some s \<Rightarrow> Some s | None \<Rightarrow> first_decodable es bs)"


text \<open>File systems on which the statements are tried.\<close>

definition fs_bytes :: filesystem where
  "fs_bytes =
     (\<lambda>p. if p = str ''Docs/latin.md'' then Some (Regular [CHR 0xE9, CHR 0x81])
          else if p = str ''Docs/utf.md'' then Some (Regular [CHR 0xC3, CHR 0xA9])
          else None)"


text \<open>The number of positions of a text at which a given text occurs.\<close>

fun occurrences :: "pystr \<Rightarrow> pystr \<Rightarrow> nat" where
  "occurrences sub [] = (if sub = [] then 1 else 0)"
| "occurrences sub (c # cs) = (if startswith (c # cs) sub then 1 else 0) + occurrences sub cs"

definition fs_notes :: filesystem where
  "fs_notes =
     (\<lambda>p. if p = str ''Docs/notes.md'' then Some (Regular ''# Title\<newline>\<newline>Body text.'')
          else None)"

text \<open>The document the combiner builds from \<open>fs_notes\<close>.\<close>

definition notes_document :: pystr where
  "notes_document =
     str (''# Logbie Framework - Combined Documentation\<newline>\<newline>'' @
          ''*Generated on: 2024-01-01 12:00:00*\<newline>\<newline>'' @
          ''## Table of Contents\<newline>\<newline>'' @
          ''1. [Title](#title)\<newline>\<newline>'' @
          ''---\<newline>\<newline>'' @
          ''<!-- BEGIN: notes.md -->\<newline>\<newline>'' @
          ''# Title\<newline>\<newline>'' @
          ''*Source: `notes.md`*\<newline>\<newline>'' @
          ''Body text.'' @
          ''\<newline>\<newline>'' @
          ''<!-- END: {filename} -->\<newline>\<newline>'' @
          ''---\<newline>\<newline>'')"

definition fs_two :: filesystem where
  "fs_two =
     (\<lambda>p. if p = str ''Docs'' then Some (Directory [str ''b.md'', str ''notes.txt'', str ''a.md''])
          else if p = str ''Docs/a.md'' then Some (Regular ''# Alpha\<newline>one'')
          else if p = str ''Docs/b.md'' then Some (Regular ''two'')
          else None)"

text \<open>A configuration and the worlds on which \<open>main\<close> is tried.\<close>

definition cfg_run :: config where
  "cfg_run = \<lparr>DOCS_DIR = str ''repo/Docs'', OUTPUT_DIR = str ''repo'',
              timestamp_now = str ''2024-01-01 12:00:00'', date_str = str ''20240101''\<rparr>"

definition world_no_markdown :: world where
  "world_no_markdown =
     \<lparr>fs = (\<lambda>p. if p = str ''repo'' then Some (Directory [str ''Docs''])
                else if p = str ''repo/Docs'' then Some (Directory [str ''readme.txt''])
                else None),
      denied = (\<lambda>p. False)\<rparr>"

definition world_no_docs :: world where
  "world_no_docs =
     \<lparr>fs = (\<lambda>p. if p = str ''repo'' then Some (Directory []) else None),
      denied = (\<lambda>p. False)\<rparr>"

definition world_notes :: world where
  "world_notes =
     \<lparr>fs = (\<lambda>p. if p = str ''repo'' then Some (Directory [str ''Docs''])
                else if p = str ''repo/Docs'' then Some (Directory [str ''notes.md''])
                else if p = str ''repo/Docs/notes.md''
                  then Some (Regular ''# Title\<newline>\<newline>Body text.'')
                else None),
      denied = (\<lambda>p. False)\<rparr>"

section \<open>Literals\<close>

lemma str_Nil [simp]: "str [] = []"
  by (simp add: str_def)

lemma str_Cons [simp]: "str (c # cs) = of_char c # str cs"
  by (simp add: str_def)

section \<open>Title extraction: the heading\<close>

lemma search_title_skip:
  "no_hash_space bol pre \<Longrightarrow> pre \<noteq> [] \<Longrightarrow> last pre = NL \<Longrightarrow>
   search_title bol (pre @ s) = search_title True s"
proof (induction pre arbitrary: bol)
  case Nil
  then show ?case by simp
next
  case (Cons c cs)
  show ?case
  proof (cases cs)
    case Nil
    with Cons.prems have "c = NL" by simp
    with Nil show ?thesis by (cases s) (simp_all split: list.splits)
  next
    case (Cons d ds)
    with Cons.prems have a: "bol \<and> c = HASH \<longrightarrow> \<not> is_space d"
      and b: "no_hash_space (c = NL) cs" and c: "last cs = NL"
      by (simp_all split: if_splits)
    from a Cons have "(if bol then match_title_at (c # cs @ s) else None) = None"
      by auto
    moreover have "search_title (c = NL) (cs @ s) = search_title True s"
      using Cons.IH [OF b _ c] Cons by simp
    ultimately show ?thesis by simp
  qed
qed


lemma group_to_eol_line:
  assumes "r \<noteq> []" "NL \<notin> set r" "tail = [] \<or> hd tail = NL"
  shows "group_to_eol (r @ tail) = Some r"
proof -
  have "takeWhile (\<lambda>c. c \<noteq> NL) tail = []" using assms(3) by (cases tail) auto
  moreover have "takeWhile (\<lambda>c. c \<noteq> NL) (r @ tail) = r @ takeWhile (\<lambda>c. c \<noteq> NL) tail"
    using assms(2) by (intro takeWhile_append2) auto
  ultimately show ?thesis using assms(1) by (simp add: group_to_eol_def)
qed

lemma spaces_then_group_line:
  assumes "\<forall>c\<in>set ws. is_space c" "r \<noteq> []" "\<not> is_space (hd r)" "NL \<notin> set r"
    "tail = [] \<or> hd tail = NL"
  shows "spaces_then_group (ws @ r @ tail) = Some r"
  using assms(1)
proof (induction ws)
  case Nil
  from assms(2) obtain x xs where r: "r = x # xs" by (cases r) auto
  with assms(3) have "\<not> is_space x" by simp
  then have "spaces_then_group (r @ tail) = group_to_eol (r @ tail)"
    using r by simp
  then show ?case using group_to_eol_line [OF assms(2,4,5)] by simp
next
  case (Cons w ws)
  then show ?case by simp
qed

lemma strip_dropWhile: "strip (dropWhile is_space rest) = strip rest"
  by (simp add: strip_def lstrip_def dropWhile_idem)

text \<open>
  C3 (as amended). Take the first line of the text that begins with \<open>#\<close> followed by
  whitespace: \<open>pre\<close> is the text before it, \<open>rest\<close> the line after its \<open>#\<close>. When
  \<open>rest\<close> holds a character that is not whitespace, \<open>get_file_title\<close> returns \<open>rest\<close>
  trimmed, wherever in the text the line stands. In particular a text whose first
  such line is \<open># Hello World\<close> has the title \<open>Hello World\<close>.
\<close>

theorem get_file_title_first_heading:
  assumes content: "content = pre @ HASH # rest @ tail"
    and pre: "pre = [] \<or> last pre = NL"
    and earlier: "no_hash_space True pre"
    and rest: "rest \<noteq> []" "is_space (hd rest)" "NL \<notin> set rest" "\<exists>c\<in>set rest. \<not> is_space c"
    and tail: "tail = [] \<or> hd tail = NL"
  shows "get_file_title file_path content = strip rest"
proof -
  define ws where "ws = takeWhile is_space rest"
  define r where "r = dropWhile is_space rest"
  have split: "rest = ws @ r" by (simp add: ws_def r_def)
  have r_ne: "r \<noteq> []" using rest(4) by (auto simp: r_def dropWhile_eq_Nil_conv)
  have r_hd: "\<not> is_space (hd r)" using r_ne hd_dropWhile [of is_space rest] by (simp add: r_def)
  have r_nl: "NL \<notin> set r" using rest(3) split by auto
  have ws_sp: "\<forall>c\<in>set ws. is_space c" by (auto simp: ws_def dest: set_takeWhileD)
  from rest(1,2) have "ws \<noteq> []" by (cases rest) (auto simp: ws_def)
  then obtain w ws' where ws: "ws = w # ws'" by (cases ws) auto
  with ws_sp have w: "is_space w" and ws': "\<forall>c\<in>set ws'. is_space c" by auto
  have "match_title_at (HASH # rest @ tail) = spaces_then_group (ws' @ r @ tail)"
    using split ws w by simp
  also have "\<dots> = Some r" by (rule spaces_then_group_line [OF ws' r_ne r_hd r_nl tail])
  finally have m: "match_title_at (HASH # rest @ tail) = Some r" .
  then have here: "search_title True (HASH # rest @ tail) = Some r" by simp
  have "search_title True content = Some r"
  proof (cases "pre = []")
    case True
    with content here show ?thesis by simp
  next
    case False
    with pre have "last pre = NL" by simp
    from search_title_skip [OF earlier False this] content here show ?thesis by simp
  qed
  then have "get_file_title file_path content = strip r" by (simp add: get_file_title_def)
  then show ?thesis by (simp add: r_def strip_dropWhile)
qed

text \<open>
  The theorem at a text whose heading \<open># Hello World\<close> stands on the second line.
\<close>

theorem get_file_title_first_heading_witness:
  "get_file_title (str ''a.md'') (str ''intro\<newline># Hello World\<newline>more'') = str ''Hello World''"
proof -
  have "get_file_title (str ''a.md'')
          (str ''intro\<newline>'' @ HASH # str '' Hello World'' @ str ''\<newline>more'') =
        strip (str '' Hello World'')"
    by (rule get_file_title_first_heading [OF refl]) (simp_all add: is_space_def)
  then show ?thesis by (simp add: strip_def lstrip_def rstrip_def is_space_def)
qed

text \<open>
  C3 as stated fails. A text holding the line \<open># Hello World\<close> after an earlier heading
  has the earlier heading as its title; and when the first line that begins with \<open>#\<close>
  and whitespace has nothing else on it, the title is not the (empty) trimmed rest of
  that line, and here not \<open>Hello World\<close> either.
\<close>

theorem get_file_title_any_heading_counterexample:
  "get_file_title (str ''a.md'') (str ''# First\<newline># Hello World'') = str ''First'' \<and>
   get_file_title (str ''a.md'') (str ''# \<newline># Hello World'') = str ''# Hello World''"
  by (simp add: get_file_title_def strip_def lstrip_def rstrip_def is_space_def group_to_eol_def)

section \<open>Title extraction: the file name\<close>






section \<open>The anchor of a table-of-contents entry\<close>




section \<open>The reader\<close>

lemma first_decodable_None:
  "first_decodable encs bs = None \<longleftrightarrow> (\<forall>e\<in>set encs. decode e bs = None)"
  by (induction encs) (auto split: option.splits)

lemma try_encodings_regular:
  "disk p = Some (Regular bs) \<Longrightarrow>
   try_encodings disk p encs =
     (case first_decodable encs bs of
        Some s \<Rightarrow> Inr (universal_newlines s)
      | None \<Rightarrow> Inl (TypeError (str ''function takes exactly 5 arguments (1 given)'')))"
  by (induction encs) (simp_all add: open_read_def split: option.splits)

text \<open>
  C7. For a file that exists, \<open>read_file_content\<close> returns what the first of UTF-8,
  Latin-1, Windows-1252 and ASCII, in this order, decodes; it fails only if every one
  of them fails. (What it raises then is the \<open>TypeError\<close> of the ill-formed \<open>raise\<close>.)
\<close>

theorem read_file_content_first_decodable:
  assumes "disk p = Some (Regular bs)"
  shows "read_file_content disk p =
           (case first_decodable [UTF8, Latin1, Windows1252, ASCII] bs of
              Some s \<Rightarrow> Inr (universal_newlines s)
            | None \<Rightarrow> Inl (TypeError (str ''function takes exactly 5 arguments (1 given)''))) \<and>
         ((\<exists>e. read_file_content disk p = Inl e) \<longleftrightarrow>
          (\<forall>enc\<in>set [UTF8, Latin1, Windows1252, ASCII]. decode enc bs = None))"
proof -
  have eq: "read_file_content disk p =
           (case first_decodable [UTF8, Latin1, Windows1252, ASCII] bs of
              Some s \<Rightarrow> Inr (universal_newlines s)
            | None \<Rightarrow> Inl (TypeError (str ''function takes exactly 5 arguments (1 given)'')))"
  proof (cases "decode UTF8 bs")
    case None
    then have "read_file_content disk p = try_encodings disk p [Latin1, Windows1252, ASCII]"
      using assms by (simp add: read_file_content_def open_read_def)
    also note try_encodings_regular [of disk p bs, OF assms]
    finally show ?thesis using None by simp
  next
    case (Some s)
    then show ?thesis using assms by (simp add: read_file_content_def open_read_def)
  qed
  have "(\<exists>e. read_file_content disk p = Inl e) \<longleftrightarrow>
        first_decodable [UTF8, Latin1, Windows1252, ASCII] bs = None"
    unfolding eq by (simp split: option.splits)
  with eq show ?thesis unfolding first_decodable_None by blast
qed

theorem read_file_content_first_decodable_witness:
  "read_file_content fs_bytes (str ''Docs/latin.md'') = Inr [233, 129] \<and>
   read_file_content fs_bytes (str ''Docs/utf.md'') = Inr [233]"
proof -
  have a: "fs_bytes (str ''Docs/latin.md'') = Some (Regular [CHR 0xE9, CHR 0x81])"
    and b: "fs_bytes (str ''Docs/utf.md'') = Some (Regular [CHR 0xC3, CHR 0xA9])"
    by (simp_all add: fs_bytes_def)
  show ?thesis
    using read_file_content_first_decodable [of fs_bytes "str ''Docs/latin.md''", OF a]
      read_file_content_first_decodable [of fs_bytes "str ''Docs/utf.md''", OF b]
    by (simp add: cont_def)
qed

text \<open>
  C10. For a file that exists, whatever its bytes, the fallback loop ends at Latin-1
  with a result, \<open>read_file_content\<close> returns, and the second loop of the combiner
  takes its normal branch: decoding never leads to an error section.
\<close>

theorem read_file_content_total:
  assumes "disk p = Some (Regular bs)"
  shows "try_encodings disk p [Latin1, Windows1252, ASCII] = Inr (universal_newlines (map of_char bs)) \<and>
         (\<exists>content. read_file_content disk p = Inr content \<and>
            process_file disk (combined_content, filename) p =
              Inr (combined_content @
                     section_fragments (basename p) (get_file_title p content) content,
                   Some (basename p)))"
proof -
  have t: "try_encodings disk p [Latin1, Windows1252, ASCII] = Inr (universal_newlines (map of_char bs))"
    using assms by (simp add: open_read_def)
  obtain content where c: "read_file_content disk p = Inr content"
    using assms t by (cases "decode UTF8 bs") (auto simp: read_file_content_def open_read_def)
  then have "process_file disk (combined_content, filename) p =
              Inr (combined_content @
                     section_fragments (basename p) (get_file_title p content) content,
                   Some (basename p))"
    by (simp add: process_file_def Let_def)
  with t c show ?thesis by blast
qed

theorem read_file_content_total_witness:
  "try_encodings fs_bytes (str ''Docs/latin.md'') [Latin1, Windows1252, ASCII] = Inr [233, 129] \<and>
   (\<exists>content. read_file_content fs_bytes (str ''Docs/latin.md'') = Inr content)"
proof -
  have a: "fs_bytes (str ''Docs/latin.md'') = Some (Regular [CHR 0xE9, CHR 0x81])"
    by (simp add: fs_bytes_def)
  from read_file_content_total [of fs_bytes "str ''Docs/latin.md''", OF a, of "[]" None] show ?thesis
    by auto
qed

section \<open>Discovery\<close>





section \<open>The combiner on one file\<close>

lemma show_nat_digit: "n < 10 \<Longrightarrow> show_nat n = [48 + n]"
  by (simp add: show_nat.simps)

lemmas eval_defs =
  combine_markdown_files_def header_fragments_def toc_entry_def read_file_content_def
  open_read_def process_file_def section_fragments_def error_fragments_def
  get_file_title_def filename_title_def skip_first_heading_def sub_first_heading_def
  line_then_newline_def group_to_eol_def strip_def lstrip_def rstrip_def startswith_def
  is_space_def basename_def rfind_def slug_def replace1_def py_lower_def lower_cp_def
  show_nat_digit enumerate_eq_zip cont_def Let_def

text \<open>
  C1. The claim: combining the one file \<open>notes.md\<close> with the body
  \<open># Title\n\nBody text.\<close> gives one begin marker and one end marker naming
  \<open>notes.md\<close>, the heading \<open># Title\<close> and the body \<open>Body text.\<close>. The code gives the
  begin marker, the heading and the body, but its end marker is the literal text
  \<open><!-- END: {filename} -->\<close>: no end marker names the file.
\<close>

theorem combine_single_file_end_marker:
  "combine_markdown_files (str ''2024-01-01 12:00:00'') fs_notes [str ''Docs/notes.md''] =
     Inr notes_document \<and>
   occurrences (str ''<!-- BEGIN: notes.md -->'') notes_document = 1 \<and>
   occurrences (str ''<!-- END: notes.md -->'') notes_document = 0 \<and>
   occurrences (str ''<!-- END: {filename} -->'') notes_document = 1"
proof -
  have "combine_markdown_files (str ''2024-01-01 12:00:00'') fs_notes [str ''Docs/notes.md''] =
     Inr notes_document"
    by (simp add: eval_defs fs_notes_def notes_document_def)
  moreover have "occurrences (str ''<!-- BEGIN: notes.md -->'') notes_document = 1"
    by (simp add: notes_document_def startswith_def)
  moreover have "occurrences (str ''<!-- END: notes.md -->'') notes_document = 0"
    by (simp add: notes_document_def startswith_def)
  moreover have "occurrences (str ''<!-- END: {filename} -->'') notes_document = 1"
    by (simp add: notes_document_def startswith_def)
  ultimately show ?thesis by blast
qed

text \<open>
  C2. The claim: a file that cannot be processed gives an error section naming it, and
  the run goes on. The code: when the first file cannot be read, the handler reads the
  unbound variable \<open>filename\<close> and the combiner ends with \<open>UnboundLocalError\<close>; when a
  later file cannot be read, the error section names the last file that could.
\<close>

theorem combine_unreadable_file:
  "combine_markdown_files (str ''T'') fs_notes [str ''Docs/missing.md''] = Inl unbound_filename \<and>
   (case combine_markdown_files (str ''T'') fs_notes [str ''Docs/notes.md'', str ''Docs/missing.md''] of
      Inl e \<Rightarrow> False
    | Inr doc \<Rightarrow>
        occurrences (str ''<!-- BEGIN: ERROR - notes.md -->'') doc = 1 \<and>
        occurrences (str ''<!-- BEGIN: ERROR - missing.md -->'') doc = 0)"
proof -
  have "combine_markdown_files (str ''T'') fs_notes [str ''Docs/missing.md''] = Inl unbound_filename"
    by (simp add: eval_defs fs_notes_def)
  moreover have "(case combine_markdown_files (str ''T'') fs_notes [str ''Docs/notes.md'', str ''Docs/missing.md''] of
      Inl e \<Rightarrow> False
    | Inr doc \<Rightarrow>
        occurrences (str ''<!-- BEGIN: ERROR - notes.md -->'') doc = 1 \<and>
        occurrences (str ''<!-- BEGIN: ERROR - missing.md -->'') doc = 0)"
    by (simp add: eval_defs fs_notes_def)
  ultimately show ?thesis by blast
qed

section \<open>The order of the sections\<close>

lemma process_file_appends:
  assumes "process_file disk (cc, v) p = Inr (cc', v')"
  shows "\<exists>frags. cc' = cc @ frags \<and>
           (case read_file_content disk p of
              Inr content \<Rightarrow> frags = section_fragments (basename p) (get_file_title p content) content
            | Inl e \<Rightarrow> \<exists>name. frags = error_fragments name e)"
  using assms
  by (auto simp: process_file_def Let_def split: sum.splits option.splits)

lemma process_files_groups:
  assumes "process_files disk (cc, v) files = Inr (cc', v')"
  shows "\<exists>groups. cc' = cc @ concat groups \<and>
           list_all2 (\<lambda>file_path frags.
              case read_file_content disk file_path of
                Inr content \<Rightarrow>
                  frags = section_fragments (basename file_path)
                            (get_file_title file_path content) content
              | Inl e \<Rightarrow> \<exists>name. frags = error_fragments name e) files groups"
  using assms
proof (induction files arbitrary: cc v)
  case Nil
  then show ?case by simp
next
  case (Cons p files)
  from Cons.prems obtain cc1 v1 where
    step: "process_file disk (cc, v) p = Inr (cc1, v1)"
    and rest: "process_files disk (cc1, v1) files = Inr (cc', v')"
    by (auto split: sum.splits)
  from process_file_appends [OF step] obtain frags where
    f: "cc1 = cc @ frags"
    "case read_file_content disk p of
       Inr content \<Rightarrow> frags = section_fragments (basename p) (get_file_title p content) content
     | Inl e \<Rightarrow> \<exists>name. frags = error_fragments name e"
    by blast
  from Cons.IH [OF rest] obtain groups where
    g: "cc' = cc1 @ concat groups"
    "list_all2 (\<lambda>file_path frags.
              case read_file_content disk file_path of
                Inr content \<Rightarrow>
                  frags = section_fragments (basename file_path)
                            (get_file_title file_path content) content
              | Inl e \<Rightarrow> \<exists>name. frags = error_fragments name e) files groups"
    by blast
  show ?case
    by (rule exI [of _ "frags # groups"]) (use f g in simp)
qed

lemma concat_groups: "concat (concat groups) = concat (map concat groups)"
  by (induction groups) simp_all

lemma find_markdown_files_sorted:
  "find_markdown_files disk directory = Inr files \<Longrightarrow> sorted files"
  by (auto simp: find_markdown_files_def split: if_splits sum.splits)

text \<open>
  C8. The files discovery returns are sorted, and the document the combiner builds from
  them is the header followed by one group of fragments for each file, in the order of
  the files: the section of a file that was read, or an error section for one that
  was not.
\<close>

theorem sections_in_sorted_order:
  assumes "find_markdown_files disk directory = Inr files"
    and "combine_markdown_files ts disk files = Inr doc"
  shows "sorted files \<and>
         (\<exists>groups. doc = concat (header_fragments ts disk files) @ concat (map concat groups) \<and>
            list_all2 (\<lambda>file_path frags.
              case read_file_content disk file_path of
                Inr content \<Rightarrow>
                  frags = section_fragments (basename file_path)
                            (get_file_title file_path content) content
              | Inl e \<Rightarrow> \<exists>name. frags = error_fragments name e) files groups)"
proof -
  from assms(2) obtain cc v where
    "process_files disk (header_fragments ts disk files, None) files = Inr (cc, v)"
    and doc: "doc = concat cc"
    by (auto simp: combine_markdown_files_def split: sum.splits prod.splits)
  from process_files_groups [OF this(1)] doc
  have "\<exists>groups. doc = concat (header_fragments ts disk files) @ concat (map concat groups) \<and>
            list_all2 (\<lambda>file_path frags.
              case read_file_content disk file_path of
                Inr content \<Rightarrow>
                  frags = section_fragments (basename file_path)
                            (get_file_title file_path content) content
              | Inl e \<Rightarrow> \<exists>name. frags = error_fragments name e) files groups"
    by (auto simp: concat_groups)
  with find_markdown_files_sorted [OF assms(1)] show ?thesis by blast
qed

lemma process_files_regular:
  "\<forall>p\<in>set files. \<exists>bs. disk p = Some (Regular bs) \<Longrightarrow>
   \<exists>st'. process_files disk st files = Inr st'"
proof (induction files arbitrary: st)
  case Nil
  then show ?case by simp
next
  case (Cons p files)
  then obtain bs where "disk p = Some (Regular bs)" by auto
  then have "\<exists>s. read_file_content disk p = Inr s"
    by (cases "decode UTF8 bs") (auto simp: read_file_content_def open_read_def)
  then obtain st1 where "process_file disk st p = Inr st1"
    by (cases st) (auto simp: process_file_def Let_def)
  with Cons show ?case by simp
qed

theorem sections_in_sorted_order_witness:
  "find_markdown_files fs_two (str ''Docs'') = Inr [str ''Docs/a.md'', str ''Docs/b.md''] \<and>
   (\<exists>doc groups.
      combine_markdown_files (str ''T'') fs_two [str ''Docs/a.md'', str ''Docs/b.md''] = Inr doc \<and>
      doc = concat (header_fragments (str ''T'') fs_two [str ''Docs/a.md'', str ''Docs/b.md'']) @
            concat (map concat groups) \<and>
      length groups = 2)"
proof -
  have a: "find_markdown_files fs_two (str ''Docs'') = Inr [str ''Docs/a.md'', str ''Docs/b.md'']"
    by (simp add: find_markdown_files_def listdir_def fs_two_def is_markdown_name_def
          endswith_def py_lower_def lower_cp_def path_join_def startswith_def)
  have "\<forall>p\<in>set [str ''Docs/a.md'', str ''Docs/b.md'']. \<exists>bs. fs_two p = Some (Regular bs)"
    by (simp add: fs_two_def)
  from process_files_regular [OF this]
  obtain doc where
    b: "combine_markdown_files (str ''T'') fs_two [str ''Docs/a.md'', str ''Docs/b.md''] = Inr doc"
    unfolding combine_markdown_files_def
    by (metis (no_types, lifting) old.prod.case old.sum.simps(6) surj_pair)
  from sections_in_sorted_order [OF a b] obtain groups where
    g: "doc = concat (header_fragments (str ''T'') fs_two [str ''Docs/a.md'', str ''Docs/b.md'']) @
            concat (map concat groups)"
    and l: "list_all2 (\<lambda>file_path frags.
              case read_file_content fs_two file_path of
                Inr content \<Rightarrow>
                  frags = section_fragments (basename file_path)
                            (get_file_title file_path content) content
              | Inl e \<Rightarrow> \<exists>name. frags = error_fragments name e)
            [str ''Docs/a.md'', str ''Docs/b.md''] groups"
    by blast
  from l have "length groups = length [str ''Docs/a.md'', str ''Docs/b.md'']"
    by (rule list_all2_lengthD [symmetric])
  then have "length groups = 2" by simp
  with a b g show ?thesis by blast
qed

section \<open>The exit status\<close>

lemma those_ascii:
  "ascii s \<Longrightarrow> those (map utf8_encode_cp s) = Some (map (\<lambda>c. [c]) s)"
  by (induction s) (simp_all add: ascii_def utf8_encode_cp_def)

lemma utf8_encode_ascii: "ascii s \<Longrightarrow> utf8_encode s = Some (map char_of s)"
  by (simp add: utf8_encode_def those_ascii concat_map_singleton)

text \<open>
  C9. The exit status is 0 or 1. It is 0 exactly when the output directory is there or
  can be made, discovery succeeds, and either no Markdown file is found or combining
  and writing both succeed; in every other case it is 1. When no Markdown file is
  found, \<open>main\<close> returns early and leaves the world as it was: nothing is written.
\<close>

theorem main_exit_status:
  "sys_exit (fst (main cfg w)) \<in> {0, 1} \<and>
   (sys_exit (fst (main cfg w)) = 0 \<longleftrightarrow>
      (\<exists>w1. (if fs w (OUTPUT_DIR cfg) = None then makedirs w (OUTPUT_DIR cfg) else Inr w) = Inr w1 \<and>
         (find_markdown_files (fs w1) (DOCS_DIR cfg) = Inr [] \<or>
          (\<exists>files doc w2.
             find_markdown_files (fs w1) (DOCS_DIR cfg) = Inr files \<and> files \<noteq> [] \<and>
             combine_markdown_files (timestamp_now cfg) (fs w1) files = Inr doc \<and>
             write_output_file w1 doc
               (path_join (OUTPUT_DIR cfg) (str ''logbie_docs_'' @ date_str cfg @ str ''.md'')) =
               Inr w2)))) \<and>
   (fs w (OUTPUT_DIR cfg) \<noteq> None \<and> find_markdown_files (fs w) (DOCS_DIR cfg) = Inr [] \<longrightarrow>
      main cfg w = (None, w))"
proof -
  define prep where
    "prep = (if fs w (OUTPUT_DIR cfg) = None then makedirs w (OUTPUT_DIR cfg) else Inr w)"
  define out where
    "out = path_join (OUTPUT_DIR cfg) (str ''logbie_docs_'' @ date_str cfg @ str ''.md'')"
  have m: "main cfg w =
     (case prep of
        Inl e \<Rightarrow> (Some 1, w)
      | Inr w1 \<Rightarrow>
          (case find_markdown_files (fs w1) (DOCS_DIR cfg) of
             Inl e \<Rightarrow> (Some 1, w1)
           | Inr markdown_files \<Rightarrow>
               if markdown_files = [] then (None, w1)
               else
                 (case combine_markdown_files (timestamp_now cfg) (fs w1) markdown_files of
                    Inl e \<Rightarrow> (Some 1, w1)
                  | Inr combined_content \<Rightarrow>
                      (case write_output_file w1 combined_content out of
                         Inl e \<Rightarrow> (Some 1, w1)
                       | Inr w2 \<Rightarrow> (Some 0, w2)))))"
    unfolding main_def prep_def out_def Let_def ..
  have a: "sys_exit (fst (main cfg w)) \<in> {0, 1}"
    unfolding m by (simp add: sys_exit_def split: sum.splits)
  have b: "sys_exit (fst (main cfg w)) = 0 \<longleftrightarrow>
      (\<exists>w1. prep = Inr w1 \<and>
         (find_markdown_files (fs w1) (DOCS_DIR cfg) = Inr [] \<or>
          (\<exists>files doc w2.
             find_markdown_files (fs w1) (DOCS_DIR cfg) = Inr files \<and> files \<noteq> [] \<and>
             combine_markdown_files (timestamp_now cfg) (fs w1) files = Inr doc \<and>
             write_output_file w1 doc out = Inr w2)))"
    unfolding m by (auto simp: sys_exit_def split: sum.splits)
  have c: "fs w (OUTPUT_DIR cfg) \<noteq> None \<and> find_markdown_files (fs w) (DOCS_DIR cfg) = Inr [] \<longrightarrow>
      main cfg w = (None, w)"
    unfolding m by (simp add: prep_def)
  from a b c show ?thesis unfolding prep_def out_def by blast
qed

theorem main_exit_status_witness:
  "main cfg_run world_no_markdown = (None, world_no_markdown) \<and>
   sys_exit (fst (main cfg_run world_no_markdown)) = 0 \<and>
   sys_exit (fst (main cfg_run world_no_docs)) = 1 \<and>
   sys_exit (fst (main cfg_run world_notes)) = 0"
proof -
  have o: "fs world_no_markdown (OUTPUT_DIR cfg_run) \<noteq> None"
    by (simp add: world_no_markdown_def cfg_run_def)
  have f: "find_markdown_files (fs world_no_markdown) (DOCS_DIR cfg_run) = Inr []"
    by (simp add: world_no_markdown_def cfg_run_def find_markdown_files_def listdir_def
          is_markdown_name_def endswith_def py_lower_def lower_cp_def)
  have e: "main cfg_run world_no_markdown = (None, world_no_markdown)"
    using main_exit_status [of cfg_run world_no_markdown] o f by blast
  then have z: "sys_exit (fst (main cfg_run world_no_markdown)) = 0"
    by (simp add: sys_exit_def)
  have o': "fs world_no_docs (OUTPUT_DIR cfg_run) \<noteq> None"
    by (simp add: world_no_docs_def cfg_run_def)
  have f': "\<exists>e. find_markdown_files (fs world_no_docs) (DOCS_DIR cfg_run) = Inl e"
    by (simp add: world_no_docs_def cfg_run_def find_markdown_files_def)
  have "sys_exit (fst (main cfg_run world_no_docs)) \<noteq> 0"
    using main_exit_status [of cfg_run world_no_docs] o' f' by auto
  moreover have "sys_exit (fst (main cfg_run world_no_docs)) \<in> {0, 1}"
    using main_exit_status [of cfg_run world_no_docs] by blast
  ultimately have n: "sys_exit (fst (main cfg_run world_no_docs)) = 1" by blast
  have o'': "fs world_notes (OUTPUT_DIR cfg_run) \<noteq> None"
    by (simp add: world_notes_def cfg_run_def)
  have f'': "find_markdown_files (fs world_notes) (DOCS_DIR cfg_run) =
               Inr [str ''repo/Docs/notes.md'']"
    by (simp add: world_notes_def cfg_run_def find_markdown_files_def listdir_def
          is_markdown_name_def endswith_def py_lower_def lower_cp_def path_join_def
          startswith_def)
  have c: "combine_markdown_files (timestamp_now cfg_run) (fs world_notes)
             [str ''repo/Docs/notes.md''] = Inr notes_document"
    by (simp add: eval_defs world_notes_def cfg_run_def notes_document_def)
  have a: "ascii notes_document" by (simp add: notes_document_def ascii_def)
  have w: "\<exists>w2. write_output_file world_notes notes_document
              (path_join (OUTPUT_DIR cfg_run)
                 (str ''logbie_docs_'' @ date_str cfg_run @ str ''.md'')) = Inr w2"
    by (simp add: write_output_file_def utf8_encode_ascii [OF a] world_notes_def cfg_run_def
          path_join_def startswith_def endswith_def)
  have s: "sys_exit (fst (main cfg_run world_notes)) = 0"
    using main_exit_status [of cfg_run world_notes] o'' f'' c w by auto
  from e z n s show ?thesis by blast
qed

end
